theory Spec2Isabelle
  imports Main "HOL-Library.Word" "HOL-Library.Char_ord" "HOL-Library.List_Lexorder"
begin

section \<open>Data model\<close>

text \<open>
  An instant (Go's \<open>time.Time\<close>, what \<open>time.Now()\<close> returns) is an integer on the time
  line; \<open>time.Duration\<close> is a signed 64-bit count of nanoseconds and wraps as Go's
  \<open>int64\<close> does. Row ids and the \<open>attempts\<close> counter are mathematical integers: both
  advance by one per insert or claim and stay far below \<open>2 ^ 63\<close>. The payload is the
  byte string that \<open>json.Marshal\<close> produced.
\<close>

type_synonym time = int
type_synonym Duration = "64 word"
type_synonym bytes = "8 word list"

definition Second :: Duration where
  "Second = 1000000000"

text \<open>\<open>time.Time.Add\<close>: the duration is read as a signed number.\<close>

definition Add :: "time \<Rightarrow> Duration \<Rightarrow> time" where
  "Add t d = t + sint d"

text \<open>
  A TIMESTAMP column of \<open>queue_items\<close> holds text. The database writes its
  CURRENT_TIMESTAMP as \<open>YYYY-MM-DD HH:MM:SS\<close> in UTC; the driver writes a \<open>time.Time\<close>
  that is bound to a statement as text in the zone of that value, with fraction and
  offset. SQLite compares two such values as text, byte by byte, a proper prefix before
  its extensions: that is the order \<open>\<le>\<close> on strings, and the only order on timestamps
  the queue ever uses. How the driver writes a \<open>time.Time\<close> is no code of the repository; it
  is the parameter \<open>bind\<close> of the operations that bind an instant they have computed.
\<close>

type_synonym timestamp = string

text \<open>
  \<open>queue.QueueItem\<close>, one row of the table \<open>queue_items\<close>. The three time fields hold
  the text of their columns; \<open>Scan\<close> reads that text back into a \<open>time.Time\<close>, which the
  model does not follow.
\<close>

record QueueItem =
  ID :: int
  QueueName :: string
  Payload :: bytes
  CreatedAt :: timestamp
  ScheduledAt :: timestamp
  Status :: string
  Attempts :: int
  LastAttemptAt :: "timestamp option"

text \<open>
  The database: the rows of \<open>queue_items\<close>, in the order of their insertion, and the
  AUTOINCREMENT counter of the table (the largest id ever given out).
\<close>

record db =
  queue_items :: "QueueItem list"
  seq :: int

text \<open>
  The calls into \<open>database/sql\<close> that the queue makes. Each of them can return an error;
  an operation is run with the set of calls that fail during it (\<open>{}\<close>: none does).
\<close>

datatype db_call = TxBegin | TxQueryRow | TxExec | TxCommit | DbExec

datatype error = StorageError db_call | EncodingError

text \<open>\<open>queue.LaQueue\<close>: the handle is the queue's name; the database is passed explicitly.\<close>

record LaQueue =
  queueName :: string

definition queue_New :: "string \<Rightarrow> LaQueue" where
  "queue_New name = \<lparr>queueName = name\<rparr>"

section \<open>The SQL statements\<close>

text \<open>
  \<open>UPDATE queue_items SET ... WHERE ...\<close>: every row that satisfies the WHERE clause is
  rewritten by the SET clause; the statement reports the number of rows it changed.
\<close>

primrec update_where ::
  "(QueueItem \<Rightarrow> bool) \<Rightarrow> (QueueItem \<Rightarrow> QueueItem) \<Rightarrow> QueueItem list \<Rightarrow> QueueItem list \<times> nat" where
  "update_where P f [] = ([], 0)"
| "update_where P f (r # rs) =
     (case update_where P f rs of
        (rs', n) \<Rightarrow> if P r then (f r # rs', Suc n) else (r # rs', n))"

text \<open>\<open>WHERE id = ? AND queue_name = ?\<close>, the key of every UPDATE of the queue.\<close>

definition by_id :: "int \<Rightarrow> string \<Rightarrow> QueueItem \<Rightarrow> bool" where
  "by_id i name r \<longleftrightarrow> ID r = i \<and> QueueName r = name"

text \<open>\<open>WHERE queue_name = ? AND status = 'pending' AND scheduled_at <= ?\<close>\<close>

definition claimable :: "string \<Rightarrow> timestamp \<Rightarrow> QueueItem \<Rightarrow> bool" where
  "claimable name now r \<longleftrightarrow>
     QueueName r = name \<and> Status r = ''pending'' \<and> ScheduledAt r \<le> now"

text \<open>
  \<open>ORDER BY scheduled_at ASC LIMIT 1\<close>: the first row of the result in ascending
  \<open>scheduled_at\<close>. The query is answered from the index \<open>idx_queue_status\<close> on
  \<open>(queue_name, status, scheduled_at)\<close> that \<open>initDB\<close> creates; the entries of an index
  with equal columns follow each other in ascending rowid, and \<open>id\<close> is the rowid. So of
  several rows with the least \<open>scheduled_at\<close> the one with the least id comes first.
\<close>

fun order_by_scheduled_at_limit_1 :: "QueueItem list \<Rightarrow> QueueItem option" where
  "order_by_scheduled_at_limit_1 [] = None"
| "order_by_scheduled_at_limit_1 (r # rs) =
     (case order_by_scheduled_at_limit_1 rs of
        None \<Rightarrow> Some r
      | Some r' \<Rightarrow>
          if ScheduledAt r < ScheduledAt r' \<or> ScheduledAt r = ScheduledAt r' \<and> ID r \<le> ID r'
          then Some r else Some r')"

text \<open>The SELECT of \<open>Dequeue\<close>; \<open>None\<close> is \<open>sql.ErrNoRows\<close>.\<close>

definition select_next :: "string \<Rightarrow> timestamp \<Rightarrow> QueueItem list \<Rightarrow> QueueItem option" where
  "select_next name now rows =
     order_by_scheduled_at_limit_1 (filter (claimable name now) rows)"

text \<open>
  The UPDATE of \<open>Dequeue\<close>:
  \<open>SET status = 'processing', attempts = attempts + 1, last_attempt_at = ?
   WHERE id = ? AND queue_name = ?\<close>
\<close>

definition set_processing :: "timestamp \<Rightarrow> QueueItem \<Rightarrow> QueueItem" where
  "set_processing now r =
     r\<lparr>Status := ''processing'', Attempts := Attempts r + 1, LastAttemptAt := Some now\<rparr>"

definition mark_processing ::
  "timestamp \<Rightarrow> int \<Rightarrow> string \<Rightarrow> QueueItem list \<Rightarrow> QueueItem list \<times> nat" where
  "mark_processing now i name rows = update_where (by_id i name) (set_processing now) rows"

text \<open>
  The id an INSERT gives to its row. With AUTOINCREMENT it is one more than the largest
  id that the table holds or has ever held.
\<close>

definition next_id :: "db \<Rightarrow> int" where
  "next_id d = fold max (map ID (queue_items d)) (seq d) + 1"

text \<open>
  \<open>INSERT INTO queue_items (queue_name, payload [, scheduled_at]) VALUES (...)\<close> at the
  database's CURRENT_TIMESTAMP \<open>now\<close>: the other columns take their defaults (CURRENT_TIMESTAMP,
  'pending', 0, NULL).
\<close>

definition new_row :: "int \<Rightarrow> string \<Rightarrow> bytes \<Rightarrow> timestamp \<Rightarrow> timestamp \<Rightarrow> QueueItem" where
  "new_row i name payload now scheduledAt =
     \<lparr>ID = i, QueueName = name, Payload = payload, CreatedAt = now,
      ScheduledAt = scheduledAt, Status = ''pending'', Attempts = 0, LastAttemptAt = None\<rparr>"

definition insert_item ::
  "string \<Rightarrow> bytes \<Rightarrow> timestamp \<Rightarrow> timestamp option \<Rightarrow> db \<Rightarrow> int \<times> db" where
  "insert_item name payload now scheduled d =
     (let i = next_id d;
          r = new_row i name payload now (case scheduled of None \<Rightarrow> now | Some t \<Rightarrow> t)
      in (i, d\<lparr>queue_items := queue_items d @ [r], seq := i\<rparr>))"

section \<open>The queue (queue/queue.go)\<close>

text \<open>
  \<open>Enqueue\<close>. The encoder \<open>json.Marshal\<close> is a parameter: \<open>None\<close> is its error.
  \<open>now\<close> is the database's CURRENT_TIMESTAMP.
\<close>

definition Enqueue ::
  "('p \<Rightarrow> bytes option) \<Rightarrow> db_call set \<Rightarrow> LaQueue \<Rightarrow> timestamp \<Rightarrow> 'p \<Rightarrow> db
     \<Rightarrow> (error + int) \<times> db" where
  "Enqueue marshal failing q now payload d =
     (case marshal payload of
        None \<Rightarrow> (Inl EncodingError, d)
      | Some payloadBytes \<Rightarrow>
          if DbExec \<in> failing then (Inl (StorageError DbExec), d)
          else (case insert_item (queueName q) payloadBytes now None d of
                  (i, d') \<Rightarrow> (Inr i, d')))"

text \<open>
  \<open>EnqueueWithDelay\<close>; \<open>goNow\<close> is the caller's \<open>time.Now()\<close>, and the instant
  \<open>time.Now().Add(delay)\<close> is bound to the statement.
\<close>

definition EnqueueWithDelay ::
  "('p \<Rightarrow> bytes option) \<Rightarrow> (time \<Rightarrow> timestamp) \<Rightarrow> db_call set \<Rightarrow> LaQueue \<Rightarrow> timestamp \<Rightarrow> time
     \<Rightarrow> 'p \<Rightarrow> Duration \<Rightarrow> db \<Rightarrow> (error + int) \<times> db" where
  "EnqueueWithDelay marshal bind failing q now goNow payload delay d =
     (case marshal payload of
        None \<Rightarrow> (Inl EncodingError, d)
      | Some payloadBytes \<Rightarrow>
          (let scheduledAt = Add goNow delay in
           if DbExec \<in> failing then (Inl (StorageError DbExec), d)
           else (case insert_item (queueName q) payloadBytes now (Some (bind scheduledAt)) d of
                   (i, d') \<Rightarrow> (Inr i, d'))))"

text \<open>
  \<open>Dequeue\<close>; \<open>now\<close> is its \<open>time.Now()\<close> as the driver writes it into the two
  statements. The result \<open>Inr None\<close> is Go's \<open>(nil, nil)\<close>. The transaction is rolled
  back (the deferred \<open>tx.Rollback()\<close>) on every path that does not commit, so the database
  is unchanged there. The number of rows the UPDATE changed is dropped, as the source
  drops it.
\<close>

definition Dequeue ::
  "db_call set \<Rightarrow> LaQueue \<Rightarrow> timestamp \<Rightarrow> db \<Rightarrow> (error + QueueItem option) \<times> db" where
  "Dequeue failing q now d =
     (if TxBegin \<in> failing then (Inl (StorageError TxBegin), d)
      else if TxQueryRow \<in> failing then (Inl (StorageError TxQueryRow), d)
      else case select_next (queueName q) now (queue_items d) of
        None \<Rightarrow> (Inr None, d)
      | Some item \<Rightarrow>
          if TxExec \<in> failing then (Inl (StorageError TxExec), d)
          else (case mark_processing now (ID item) (queueName q) (queue_items d) of
                  (rows', _) \<Rightarrow>
                    if TxCommit \<in> failing then (Inl (StorageError TxCommit), d)
                    else (Inr (Some (item\<lparr>Status := ''processing'',
                                          Attempts := Attempts item + 1,
                                          LastAttemptAt := Some now\<rparr>)),
                          d\<lparr>queue_items := rows'\<rparr>)))"

text \<open>
  \<open>Complete\<close>, \<open>Fail\<close> and \<open>RetryWithDelay\<close> return Go's \<open>error\<close> only (\<open>None\<close> is
  \<open>nil\<close>); the result of \<open>Exec\<close>, with its count of rows, is dropped.
\<close>

definition set_status :: "string \<Rightarrow> QueueItem \<Rightarrow> QueueItem" where
  "set_status st r = r\<lparr>Status := st\<rparr>"

definition set_pending :: "timestamp \<Rightarrow> QueueItem \<Rightarrow> QueueItem" where
  "set_pending scheduledAt r = r\<lparr>Status := ''pending'', ScheduledAt := scheduledAt\<rparr>"

definition Complete :: "db_call set \<Rightarrow> LaQueue \<Rightarrow> int \<Rightarrow> db \<Rightarrow> error option \<times> db" where
  "Complete failing q i d =
     (if DbExec \<in> failing then (Some (StorageError DbExec), d)
      else (None, d\<lparr>queue_items :=
              fst (update_where (by_id i (queueName q)) (set_status ''completed'') (queue_items d))\<rparr>))"

definition Fail :: "db_call set \<Rightarrow> LaQueue \<Rightarrow> int \<Rightarrow> db \<Rightarrow> error option \<times> db" where
  "Fail failing q i d =
     (if DbExec \<in> failing then (Some (StorageError DbExec), d)
      else (None, d\<lparr>queue_items :=
              fst (update_where (by_id i (queueName q)) (set_status ''failed'') (queue_items d))\<rparr>))"

definition RetryWithDelay ::
  "(time \<Rightarrow> timestamp) \<Rightarrow> db_call set \<Rightarrow> LaQueue \<Rightarrow> time \<Rightarrow> int \<Rightarrow> Duration \<Rightarrow> db
     \<Rightarrow> error option \<times> db" where
  "RetryWithDelay bind failing q goNow i delay d =
     (let scheduledAt = Add goNow delay in
      if DbExec \<in> failing then (Some (StorageError DbExec), d)
      else (None, d\<lparr>queue_items :=
              fst (update_where (by_id i (queueName q)) (set_pending (bind scheduledAt))
                     (queue_items d))\<rparr>))"

section \<open>The worker (worker/worker.go)\<close>

text \<open>\<open>ProcessFunc\<close>: \<open>None\<close> is a \<open>nil\<close> error, \<open>Some msg\<close> the handler's error.\<close>

type_synonym ProcessFunc = "bytes \<Rightarrow> string option"

record Config =
  cfg_QueueName :: string
  cfg_Interval :: Duration
  cfg_MaxRetries :: int

record Worker =
  w_queue :: LaQueue
  w_queueName :: string
  w_processFunc :: ProcessFunc
  w_interval :: Duration
  w_maxRetries :: int

definition worker_New :: "Config \<Rightarrow> ProcessFunc \<Rightarrow> Worker" where
  "worker_New config processFunc =
     (let config = (if cfg_Interval config = 0 then config\<lparr>cfg_Interval := 5 * Second\<rparr> else config);
          config = (if cfg_MaxRetries config = 0 then config\<lparr>cfg_MaxRetries := 3\<rparr> else config)
      in \<lparr>w_queue = queue_New (cfg_QueueName config),
          w_queueName = cfg_QueueName config,
          w_processFunc = processFunc,
          w_interval = cfg_Interval config,
          w_maxRetries = cfg_MaxRetries config\<rparr>)"

text \<open>
  The delay of a retry, \<open>time.Duration(1<<uint(item.Attempts)) * time.Second\<close>:
  \<open>uint\<close> converts Go's 64-bit \<open>int\<close> to an unsigned count, \<open><<\<close> shifts the \<open>int64\<close>
  value 1 (a count of 64 or more gives 0), and the product wraps.
\<close>

definition go_uint :: "int \<Rightarrow> nat" where
  "go_uint a = nat (a mod 2 ^ 64)"

definition shl_int64 :: "Duration \<Rightarrow> nat \<Rightarrow> Duration" where
  "shl_int64 x count = (if count < 64 then push_bit count x else 0)"

definition retry_delay :: "int \<Rightarrow> Duration" where
  "retry_delay attempts = shl_int64 1 (go_uint attempts) * Second"

text \<open>
  What one run of \<open>processNext\<close> meets: the \<open>now\<close> and the failing calls of its
  \<open>Dequeue\<close>, and the \<open>time.Now()\<close> and the failing calls of the call that settles the
  item afterwards.
\<close>

record tick =
  claim_now :: timestamp
  claim_failing :: "db_call set"
  settle_now :: time
  settle_failing :: "db_call set"

text \<open>\<open>processNext\<close>. Errors are logged and dropped; the log is not modelled.\<close>

definition processNext :: "(time \<Rightarrow> timestamp) \<Rightarrow> Worker \<Rightarrow> tick \<Rightarrow> db \<Rightarrow> db" where
  "processNext bind w tk d =
     (case Dequeue (claim_failing tk) (w_queue w) (claim_now tk) d of
        (Inl err, d1) \<Rightarrow> d1
      | (Inr None, d1) \<Rightarrow> d1
      | (Inr (Some item), d1) \<Rightarrow>
          (case w_processFunc w (Payload item) of
             Some err \<Rightarrow>
               if Attempts item \<ge> w_maxRetries w
               then snd (Fail (settle_failing tk) (w_queue w) (ID item) d1)
               else (let delay = retry_delay (Attempts item)
                     in snd (RetryWithDelay bind (settle_failing tk) (w_queue w) (settle_now tk)
                               (ID item) delay d1))
           | None \<Rightarrow> snd (Complete (settle_failing tk) (w_queue w) (ID item) d1)))"

text \<open>
  \<open>Start\<close>: the loop takes what its \<open>select\<close> receives, a tick of the ticker or the end of
  the context. The list is the finite part of that sequence which is observed.
\<close>

datatype event = CtxDone | TickerC tick

fun Start :: "(time \<Rightarrow> timestamp) \<Rightarrow> Worker \<Rightarrow> event list \<Rightarrow> db \<Rightarrow> db" where
  "Start bind w [] d = d"
| "Start bind w (CtxDone # es) d = d"
| "Start bind w (TickerC tk # es) d = Start bind w es (processNext bind w tk d)"

section \<open>The TypeScript port (ts/src/queue.ts)\<close>

text \<open>
  \<open>complete\<close>, \<open>fail\<close> and \<open>retryWithDelay\<close> of the port run the same UPDATE statements
  and return \<open>result.changes > 0\<close>; an exception of the driver is \<open>Inl\<close>. The delay is a
  number of milliseconds, \<open>dateNow\<close> is \<open>Date.now()\<close>, and \<open>toISOString\<close>, a parameter, writes
  the instant as text.
\<close>

definition complete_ts :: "db_call set \<Rightarrow> LaQueue \<Rightarrow> int \<Rightarrow> db \<Rightarrow> (error + bool) \<times> db" where
  "complete_ts failing q i d =
     (if DbExec \<in> failing then (Inl (StorageError DbExec), d)
      else (case update_where (by_id i (queueName q)) (set_status ''completed'') (queue_items d) of
              (rows', changes) \<Rightarrow> (Inr (changes > 0), d\<lparr>queue_items := rows'\<rparr>)))"

definition fail_ts :: "db_call set \<Rightarrow> LaQueue \<Rightarrow> int \<Rightarrow> db \<Rightarrow> (error + bool) \<times> db" where
  "fail_ts failing q i d =
     (if DbExec \<in> failing then (Inl (StorageError DbExec), d)
      else (case update_where (by_id i (queueName q)) (set_status ''failed'') (queue_items d) of
              (rows', changes) \<Rightarrow> (Inr (changes > 0), d\<lparr>queue_items := rows'\<rparr>)))"

definition retryWithDelay_ts ::
  "(int \<Rightarrow> timestamp) \<Rightarrow> db_call set \<Rightarrow> LaQueue \<Rightarrow> int \<Rightarrow> int \<Rightarrow> int \<Rightarrow> db
     \<Rightarrow> (error + bool) \<times> db" where
  "retryWithDelay_ts toISOString failing q dateNow i delay d =
     (let scheduledAt = toISOString (dateNow + delay) in
      if DbExec \<in> failing then (Inl (StorageError DbExec), d)
      else (case update_where (by_id i (queueName q)) (set_pending scheduledAt) (queue_items d) of
              (rows', changes) \<Rightarrow> (Inr (changes > 0), d\<lparr>queue_items := rows'\<rparr>)))"

section \<open>Sequences of queue operations\<close>

text \<open>A call of the queue's API with its arguments, its clock and its failing calls.\<close>

datatype 'p queue_call =
    CallEnqueue "db_call set" LaQueue timestamp 'p
  | CallEnqueueWithDelay "db_call set" LaQueue timestamp time 'p Duration
  | CallDequeue "db_call set" LaQueue timestamp
  | CallComplete "db_call set" LaQueue int
  | CallFail "db_call set" LaQueue int
  | CallRetryWithDelay "db_call set" LaQueue time int Duration

fun run_call ::
  "('p \<Rightarrow> bytes option) \<Rightarrow> (time \<Rightarrow> timestamp) \<Rightarrow> 'p queue_call \<Rightarrow> db \<Rightarrow> db" where
  "run_call m bind (CallEnqueue F q now p) d = snd (Enqueue m F q now p d)"
| "run_call m bind (CallEnqueueWithDelay F q now goNow p delay) d =
     snd (EnqueueWithDelay m bind F q now goNow p delay d)"
| "run_call m bind (CallDequeue F q now) d = snd (Dequeue F q now d)"
| "run_call m bind (CallComplete F q i) d = snd (Complete F q i d)"
| "run_call m bind (CallFail F q i) d = snd (Fail F q i d)"
| "run_call m bind (CallRetryWithDelay F q goNow i delay) d =
     snd (RetryWithDelay bind F q goNow i delay d)"

fun run_calls ::
  "('p \<Rightarrow> bytes option) \<Rightarrow> (time \<Rightarrow> timestamp) \<Rightarrow> 'p queue_call list \<Rightarrow> db \<Rightarrow> db" where
  "run_calls m bind [] d = d"
| "run_calls m bind (c # cs) d = run_calls m bind cs (run_call m bind c d)"

section \<open>The claim protocol in the words of the specification\<close>



section \<open>Facts about the SQL statements\<close>

lemma fst_update_where: "fst (update_where P f rs) = map (\<lambda>r. if P r then f r else r) rs"
  by (induction rs) (auto split: prod.splits)

lemma snd_update_where: "snd (update_where P f rs) = length (filter P rs)"
  by (induction rs) (auto split: prod.splits)

lemma update_where_eq:
  "update_where P f rs = (map (\<lambda>r. if P r then f r else r) rs, length (filter P rs))"
  by (simp add: prod_eq_iff fst_update_where snd_update_where)

lemma order_by_None: "order_by_scheduled_at_limit_1 rs = None \<longleftrightarrow> rs = []"
  by (induction rs) (auto split: option.splits)

lemma order_by_Some_least:
  "order_by_scheduled_at_limit_1 rs = Some r \<Longrightarrow>
     r \<in> set rs
     \<and> (\<forall>x \<in> set rs. ScheduledAt r < ScheduledAt x
                       \<or> ScheduledAt r = ScheduledAt x \<and> ID r \<le> ID x)"
proof (induction rs arbitrary: r)
  case Nil
  then show ?case by simp
next
  case (Cons a rs)
  show ?case
  proof (cases "order_by_scheduled_at_limit_1 rs")
    case None
    then have "rs = []" by (simp add: order_by_None)
    with Cons.prems show ?thesis by simp
  next
    case (Some r')
    from Cons.IH [OF Some] have r': "r' \<in> set rs"
      and least: "\<forall>x \<in> set rs. ScheduledAt r' < ScheduledAt x
                     \<or> ScheduledAt r' = ScheduledAt x \<and> ID r' \<le> ID x"
      by simp_all
    show ?thesis
    proof (cases "ScheduledAt a < ScheduledAt r' \<or> ScheduledAt a = ScheduledAt r' \<and> ID a \<le> ID r'")
      case True
      with Some Cons.prems have "r = a" by simp
      moreover have "ScheduledAt a < ScheduledAt x \<or> ScheduledAt a = ScheduledAt x \<and> ID a \<le> ID x"
        if "x \<in> set rs" for x
        using True least that by (metis less_trans order_trans)
      ultimately show ?thesis by simp
    next
      case False
      with Some Cons.prems have "r = r'" by simp
      moreover from False have
        "ScheduledAt r' < ScheduledAt a \<or> ScheduledAt r' = ScheduledAt a \<and> ID r' \<le> ID a"
        by (metis linorder_less_linear linear)
      ultimately show ?thesis using r' least by simp
    qed
  qed
qed

lemma select_next_None:
  "select_next name now rows = None \<longleftrightarrow> (\<forall>r \<in> set rows. \<not> claimable name now r)"
  by (simp add: select_next_def order_by_None filter_empty_conv)

lemma select_next_Some:
  assumes "select_next name now rows = Some item"
  shows "item \<in> set rows" "claimable name now item"
    "\<forall>r \<in> set rows. claimable name now r \<longrightarrow>
       ScheduledAt item < ScheduledAt r \<or> ScheduledAt item = ScheduledAt r \<and> ID item \<le> ID r"
  using order_by_Some_least [OF assms [unfolded select_next_def]] by auto




lemma map_key_distinct:
  assumes "distinct (map ID (pre @ old # post))"
  shows "map (\<lambda>r. if by_id (ID old) name r then f r else r) (pre @ old # post)
           = pre @ (if QueueName old = name then f old else old) # post"
proof -
  from assms have "ID old \<notin> ID ` set pre" "ID old \<notin> ID ` set post" by auto
  then have "\<forall>r \<in> set pre \<union> set post. ID r \<noteq> ID old" by (metis UnE imageI)
  then have "map (\<lambda>r. if by_id (ID old) name r then f r else r) pre = pre"
    and "map (\<lambda>r. if by_id (ID old) name r then f r else r) post = post"
    by (simp_all add: by_id_def map_idI)
  then show ?thesis by (simp add: by_id_def)
qed

section \<open>Facts about Dequeue\<close>


lemma Dequeue_Some:
  assumes "Dequeue F q now d = (Inr (Some item), d')"
  shows "\<exists>old. select_next (queueName q) now (queue_items d) = Some old
           \<and> item = set_processing now old
           \<and> d' = d\<lparr>queue_items :=
                       map (\<lambda>r. if by_id (ID old) (queueName q) r then set_processing now r else r)
                         (queue_items d)\<rparr>"
  using assms
  by (auto simp: Dequeue_def mark_processing_def update_where_eq set_processing_def
           split: option.splits if_splits)

lemma Dequeue_rows:
  "queue_items (snd (Dequeue F q now d)) = queue_items d
   \<or> (\<exists>old. select_next (queueName q) now (queue_items d) = Some old
         \<and> queue_items (snd (Dequeue F q now d)) =
             map (\<lambda>r. if by_id (ID old) (queueName q) r then set_processing now r else r)
               (queue_items d))"
  by (auto simp: Dequeue_def mark_processing_def update_where_eq split: option.splits)



section \<open>Facts about the status writes\<close>

lemma by_id_eq: "by_id i name = (\<lambda>r. ID r = i \<and> QueueName r = name)"
  by (rule ext) (simp add: by_id_def)

lemma Complete_eq:
  "Complete failing q i d =
     (if DbExec \<in> failing then (Some (StorageError DbExec), d)
      else (None, d\<lparr>queue_items :=
              map (\<lambda>r. if by_id i (queueName q) r then r\<lparr>Status := ''completed''\<rparr> else r)
                (queue_items d)\<rparr>))"
  by (simp add: Complete_def fst_update_where set_status_def)

lemma Fail_eq:
  "Fail failing q i d =
     (if DbExec \<in> failing then (Some (StorageError DbExec), d)
      else (None, d\<lparr>queue_items :=
              map (\<lambda>r. if by_id i (queueName q) r then r\<lparr>Status := ''failed''\<rparr> else r)
                (queue_items d)\<rparr>))"
  by (simp add: Fail_def fst_update_where set_status_def)

lemma RetryWithDelay_eq:
  "RetryWithDelay bind failing q goNow i delay d =
     (if DbExec \<in> failing then (Some (StorageError DbExec), d)
      else (None, d\<lparr>queue_items :=
              map (\<lambda>r. if by_id i (queueName q) r
                         then r\<lparr>Status := ''pending'', ScheduledAt := bind (goNow + sint delay)\<rparr>
                         else r)
                (queue_items d)\<rparr>))"
  by (simp add: RetryWithDelay_def fst_update_where set_pending_def Add_def Let_def)

section \<open>Facts about sequences of calls\<close>

lemma Enqueue_rows:
  "queue_items (snd (Enqueue m F q now p d)) = queue_items d
   \<or> (\<exists>r. queue_items (snd (Enqueue m F q now p d)) = queue_items d @ [r])"
  by (auto simp: Enqueue_def insert_item_def Let_def split: option.splits)

lemma EnqueueWithDelay_rows:
  "queue_items (snd (EnqueueWithDelay m bind F q now goNow p delay d)) = queue_items d
   \<or> (\<exists>r. queue_items (snd (EnqueueWithDelay m bind F q now goNow p delay d))
            = queue_items d @ [r])"
  by (auto simp: EnqueueWithDelay_def insert_item_def Let_def split: option.splits)

lemma run_call_nth:
  assumes "k < length (queue_items d)"
  shows "k < length (queue_items (run_call m bind c d))
         \<and> ID (queue_items (run_call m bind c d) ! k) = ID (queue_items d ! k)
         \<and> Attempts (queue_items d ! k) \<le> Attempts (queue_items (run_call m bind c d) ! k)"
proof (cases c)
  case (CallEnqueue F q now p)
  with Enqueue_rows [of m F q now p d] assms show ?thesis
    by (auto simp: nth_append)
next
  case (CallEnqueueWithDelay F q now goNow p delay)
  with EnqueueWithDelay_rows [of m bind F q now goNow p delay d] assms show ?thesis
    by (auto simp: nth_append)
next
  case (CallDequeue F q now)
  with Dequeue_rows [of F q now d] assms show ?thesis
    by (auto simp: set_processing_def)
next
  case (CallComplete F q i)
  with assms show ?thesis by (simp add: Complete_eq)
next
  case (CallFail F q i)
  with assms show ?thesis by (simp add: Fail_eq)
next
  case (CallRetryWithDelay F q goNow i delay)
  with assms show ?thesis by (simp add: RetryWithDelay_eq)
qed

lemma run_calls_nth:
  "k < length (queue_items d) \<Longrightarrow>
     k < length (queue_items (run_calls m bind cs d))
     \<and> ID (queue_items (run_calls m bind cs d) ! k) = ID (queue_items d ! k)
     \<and> Attempts (queue_items d ! k) \<le> Attempts (queue_items (run_calls m bind cs d) ! k)"
proof (induction cs arbitrary: d)
  case Nil
  then show ?case by simp
next
  case (Cons c cs)
  from run_call_nth [OF Cons.prems, of m bind c] have
    step: "k < length (queue_items (run_call m bind c d))"
      "ID (queue_items (run_call m bind c d) ! k) = ID (queue_items d ! k)"
      "Attempts (queue_items d ! k) \<le> Attempts (queue_items (run_call m bind c d) ! k)"
    by simp_all
  from Cons.IH [OF step(1)] step(2,3) show ?case by simp
qed

section \<open>Facts about the worker\<close>

lemma retry_delay_in_range:
  assumes "1 \<le> a" "a \<le> 33"
  shows "sint (retry_delay a) = 2000000000 * 2 ^ nat (a - 1)"
proof -
  let ?n = "nat a"
  have u: "go_uint a = ?n" using assms by (simp add: go_uint_def)
  have n: "?n \<le> 33" "?n = Suc (nat (a - 1))" using assms by auto
  have "(2::int) ^ ?n \<le> 2 ^ 33" using n(1) by (simp only: power_increasing one_le_numeral)
  then have bound: "(2::int) ^ ?n * 1000000000 < 2 ^ 63" by simp
  have "retry_delay a = word_of_int (2 ^ ?n * 1000000000)"
    using n(1) by (simp add: retry_delay_def shl_int64_def u Second_def push_bit_eq_mult)
  then have "sint (retry_delay a) = signed_take_bit 63 (2 ^ ?n * 1000000000 :: int)"
    by (simp only: sint_sbintrunc') simp
  also have "\<dots> = 2 ^ ?n * 1000000000"
    using bound by (intro signed_take_bit_int_eq_self) (simp_all add: order_trans [of _ 0])
  also have "\<dots> = 2000000000 * 2 ^ nat (a - 1)"
    by (subst n(2)) simp
  finally show ?thesis .
qed

lemma filter_other_ids_map:
  "filter (\<lambda>r. ID r \<noteq> i) (map (\<lambda>r. if by_id i name r then f r else r) rows)
     = filter (\<lambda>r. ID r \<noteq> i) rows" if "\<And>r. ID (f r) = ID r"
  by (induction rows) (simp_all add: by_id_def that)

lemma Start_ticks:
  "Start bind w (map TickerC tks @ es) d = Start bind w es (fold (processNext bind w) tks d)"
  by (induction tks arbitrary: d) simp_all

lemma processNext_handler_failure:
  assumes "Dequeue (claim_failing tk) (w_queue w) (claim_now tk) d = (Inr (Some item), d1)"
    and "w_processFunc w (Payload item) = Some err"
  shows "processNext bind w tk d =
           (if w_maxRetries w \<le> Attempts item
            then snd (Fail (settle_failing tk) (w_queue w) (ID item) d1)
            else snd (RetryWithDelay bind (settle_failing tk) (w_queue w) (settle_now tk)
                        (ID item) (retry_delay (Attempts item)) d1))
         \<and> (1 \<le> Attempts item \<and> Attempts item \<le> 33 \<longrightarrow>
               sint (retry_delay (Attempts item)) = 2000000000 * 2 ^ nat (Attempts item - 1))
         \<and> filter (\<lambda>r. ID r \<noteq> ID item) (queue_items (processNext bind w tk d))
             = filter (\<lambda>r. ID r \<noteq> ID item) (queue_items d1)
         \<and> Start bind w (TickerC tk # map TickerC tks @ es) d
             = Start bind w es (fold (processNext bind w) tks (processNext bind w tk d))"
proof -
  have run: "processNext bind w tk d =
           (if w_maxRetries w \<le> Attempts item
            then snd (Fail (settle_failing tk) (w_queue w) (ID item) d1)
            else snd (RetryWithDelay bind (settle_failing tk) (w_queue w) (settle_now tk)
                        (ID item) (retry_delay (Attempts item)) d1))"
    using assms by (simp add: processNext_def)
  have "filter (\<lambda>r. ID r \<noteq> ID item) (queue_items (processNext bind w tk d))
             = filter (\<lambda>r. ID r \<noteq> ID item) (queue_items d1)"
    by (simp add: run Fail_eq RetryWithDelay_eq filter_other_ids_map)
  with run show ?thesis by (simp add: Start_ticks retry_delay_in_range)
qed

section \<open>The claim protocol\<close>





text \<open>
  C3. When \<open>Dequeue\<close> returns an item, that item is a claimable row \<open>old\<close> of the table
  with \<open>status = processing\<close>, \<open>attempts\<close> one more than the row had, and
  \<open>last_attempt_at\<close> the time of the claim. The UPDATE writes the same three values
  into every row with the key of \<open>old\<close>; as ids are unique in the table (\<open>id\<close> is its
  primary key), the stored row is then equal to the returned item and no other row
  changes.
\<close>

theorem Dequeue_post_update_values:
  assumes "Dequeue failing q now d = (Inr (Some item), d')"
  shows "\<exists>old pre post.
           queue_items d = pre @ old # post
           \<and> claimable (queueName q) now old
           \<and> item = old\<lparr>Status := ''processing'', Attempts := Attempts old + 1,
                         LastAttemptAt := Some now\<rparr>
           \<and> Status item = ''processing''
           \<and> Attempts item = Attempts old + 1
           \<and> LastAttemptAt item = Some now
           \<and> queue_items d' =
               map (\<lambda>r. if ID r = ID old \<and> QueueName r = queueName q
                          then r\<lparr>Status := ''processing'', Attempts := Attempts r + 1,
                                 LastAttemptAt := Some now\<rparr>
                          else r) (queue_items d)
           \<and> (distinct (map ID (queue_items d)) \<longrightarrow> queue_items d' = pre @ item # post)"
proof -
  from Dequeue_Some [OF assms] obtain old where
    sel: "select_next (queueName q) now (queue_items d) = Some old"
    and item: "item = set_processing now old"
    and d': "d' = d\<lparr>queue_items :=
               map (\<lambda>r. if by_id (ID old) (queueName q) r then set_processing now r else r)
                 (queue_items d)\<rparr>"
    by blast
  from select_next_Some(1) [OF sel] obtain pre post where
    split: "queue_items d = pre @ old # post" by (auto dest: split_list)
  from select_next_Some(2) [OF sel] have cl: "claimable (queueName q) now old" .
  then have qn: "QueueName old = queueName q" by (simp add: claimable_def)
  have stored: "queue_items d' = pre @ item # post" if "distinct (map ID (queue_items d))"
    using that map_key_distinct [of pre old post "queueName q" "set_processing now"] d' item qn
    by (simp add: split)
  have rows: "queue_items d' =
               map (\<lambda>r. if ID r = ID old \<and> QueueName r = queueName q
                          then r\<lparr>Status := ''processing'', Attempts := Attempts r + 1,
                                 LastAttemptAt := Some now\<rparr>
                          else r) (queue_items d)"
    using d' by (simp add: by_id_def set_processing_def)
  have vals: "item = old\<lparr>Status := ''processing'', Attempts := Attempts old + 1,
                         LastAttemptAt := Some now\<rparr>"
    using item by (simp add: set_processing_def)
  from vals have "Status item = ''processing''" "Attempts item = Attempts old + 1"
    "LastAttemptAt item = Some now" by simp_all
  with split cl vals rows stored show ?thesis by blast
qed

theorem Dequeue_post_update_values_witness:
  "Dequeue {} (queue_New ''q'') ''2024-01-01 12:00:05+00:00''
     \<lparr>queue_items =
        [new_row 1 ''q'' [] ''2024-01-01 12:00:00'' ''2024-01-01 12:00:09'',
         (new_row 2 ''q'' [7] ''2024-01-01 12:00:00'' ''2024-01-01 12:00:03'')\<lparr>Attempts := 4\<rparr>],
      seq = 2\<rparr>
   = (Inr (Some ((new_row 2 ''q'' [7] ''2024-01-01 12:00:00'' ''2024-01-01 12:00:03'')
                   \<lparr>Status := ''processing'', Attempts := 5,
                    LastAttemptAt := Some ''2024-01-01 12:00:05+00:00''\<rparr>)),
      \<lparr>queue_items =
         [new_row 1 ''q'' [] ''2024-01-01 12:00:00'' ''2024-01-01 12:00:09'',
          (new_row 2 ''q'' [7] ''2024-01-01 12:00:00'' ''2024-01-01 12:00:03'')
            \<lparr>Status := ''processing'', Attempts := 5,
             LastAttemptAt := Some ''2024-01-01 12:00:05+00:00''\<rparr>],
       seq = 2\<rparr>)
   \<and> (\<exists>old pre post.
         [new_row 1 ''q'' [] ''2024-01-01 12:00:00'' ''2024-01-01 12:00:09'',
          (new_row 2 ''q'' [7] ''2024-01-01 12:00:00'' ''2024-01-01 12:00:03'')\<lparr>Attempts := 4\<rparr>]
           = pre @ old # post
         \<and> Attempts old + 1 = 5
         \<and> [new_row 1 ''q'' [] ''2024-01-01 12:00:00'' ''2024-01-01 12:00:09'',
             (new_row 2 ''q'' [7] ''2024-01-01 12:00:00'' ''2024-01-01 12:00:03'')
               \<lparr>Status := ''processing'', Attempts := 5,
                LastAttemptAt := Some ''2024-01-01 12:00:05+00:00''\<rparr>]
            = pre @ (new_row 2 ''q'' [7] ''2024-01-01 12:00:00'' ''2024-01-01 12:00:03'')
                      \<lparr>Status := ''processing'', Attempts := 5,
                       LastAttemptAt := Some ''2024-01-01 12:00:05+00:00''\<rparr> # post)"
proof -
  let ?now = "''2024-01-01 12:00:05+00:00''"
  let ?rows = "[new_row 1 ''q'' [] ''2024-01-01 12:00:00'' ''2024-01-01 12:00:09'',
      (new_row 2 ''q'' [7] ''2024-01-01 12:00:00'' ''2024-01-01 12:00:03'')\<lparr>Attempts := 4\<rparr>]"
  let ?item = "(new_row 2 ''q'' [7] ''2024-01-01 12:00:00'' ''2024-01-01 12:00:03'')
                 \<lparr>Status := ''processing'', Attempts := 5, LastAttemptAt := Some ?now\<rparr>"
  let ?rows' = "[new_row 1 ''q'' [] ''2024-01-01 12:00:00'' ''2024-01-01 12:00:09'', ?item]"
  have run: "Dequeue {} (queue_New ''q'') ?now \<lparr>queue_items = ?rows, seq = 2\<rparr>
               = (Inr (Some ?item), \<lparr>queue_items = ?rows', seq = 2\<rparr>)"
    by (simp add: Dequeue_def select_next_def claimable_def new_row_def queue_New_def
          mark_processing_def by_id_def set_processing_def)
  have dist: "distinct (map ID (queue_items \<lparr>queue_items = ?rows, seq = 2\<rparr>))"
    by (simp add: new_row_def)
  from Dequeue_post_update_values [OF run] dist obtain old pre post where
    "?rows = pre @ old # post" "Attempts ?item = Attempts old + 1" "?rows' = pre @ ?item # post"
    by auto
  moreover have "Attempts ?item = 5" by simp
  ultimately have "\<exists>old pre post. ?rows = pre @ old # post \<and> Attempts old + 1 = 5
      \<and> ?rows' = pre @ ?item # post"
    by metis
  with run show ?thesis by simp
qed

text \<open>
  C4. When no row of the target queue is pending and due, \<open>Dequeue\<close> returns the empty
  result \<open>Inr None\<close> (Go's \<open>(nil, nil)\<close>), which is not an error, and the database is
  unchanged. An error is returned only when \<open>Begin\<close> or the query itself fails, and the
  database is unchanged then as well.
\<close>

theorem Dequeue_empty:
  assumes "\<forall>r \<in> set (queue_items d).
             \<not> (QueueName r = queueName q \<and> Status r = ''pending'' \<and> ScheduledAt r \<le> now)"
  shows "Dequeue {} q now d = (Inr None, d)
         \<and> Dequeue failing q now d =
             (if TxBegin \<in> failing then Inl (StorageError TxBegin)
              else if TxQueryRow \<in> failing then Inl (StorageError TxQueryRow)
              else Inr None, d)"
proof -
  from assms have "select_next (queueName q) now (queue_items d) = None"
    by (simp add: select_next_None claimable_def)
  then show ?thesis by (simp add: Dequeue_def)
qed

theorem Dequeue_empty_witness:
  "Dequeue {} (queue_New ''q'') ''2024-01-01 12:00:05+00:00''
     \<lparr>queue_items =
        [new_row 1 ''q'' [] ''2024-01-01 12:00:00'' ''2024-01-01 12:00:09'',
         (new_row 2 ''q'' [] ''2024-01-01 12:00:00'' ''2024-01-01 12:00:03'')
           \<lparr>Status := ''completed''\<rparr>,
         new_row 3 ''other'' [] ''2024-01-01 12:00:00'' ''2024-01-01 12:00:00''],
      seq = 3\<rparr>
   = (Inr None,
      \<lparr>queue_items =
        [new_row 1 ''q'' [] ''2024-01-01 12:00:00'' ''2024-01-01 12:00:09'',
         (new_row 2 ''q'' [] ''2024-01-01 12:00:00'' ''2024-01-01 12:00:03'')
           \<lparr>Status := ''completed''\<rparr>,
         new_row 3 ''other'' [] ''2024-01-01 12:00:00'' ''2024-01-01 12:00:00''],
      seq = 3\<rparr>)"
proof -
  let ?d = "\<lparr>queue_items =
        [new_row 1 ''q'' [] ''2024-01-01 12:00:00'' ''2024-01-01 12:00:09'',
         (new_row 2 ''q'' [] ''2024-01-01 12:00:00'' ''2024-01-01 12:00:03'')
           \<lparr>Status := ''completed''\<rparr>,
         new_row 3 ''other'' [] ''2024-01-01 12:00:00'' ''2024-01-01 12:00:00''],
      seq = 3\<rparr>"
  have none: "\<forall>r \<in> set (queue_items ?d).
      \<not> (QueueName r = queueName (queue_New ''q'') \<and> Status r = ''pending''
          \<and> ScheduledAt r \<le> ''2024-01-01 12:00:05+00:00'')"
    by (simp add: new_row_def queue_New_def)
  from Dequeue_empty [OF none, of "{}"] show ?thesis by simp
qed

section \<open>Status transitions\<close>

text \<open>
  C5, as stated, fails: Go's \<open>Complete\<close>, \<open>Fail\<close> and \<open>RetryWithDelay\<close> return an
  \<open>error\<close>, not a boolean, and the value is \<open>nil\<close> both when the UPDATE changed a row
  (id 1) and when it changed none (id 2).
\<close>

theorem settle_result_counterexample:
  "fst (Complete {} (queue_New ''q'') 1
          \<lparr>queue_items = [new_row 1 ''q'' [] ''2024-01-01 12:00:00'' ''2024-01-01 12:00:00''],
           seq = 1\<rparr>) = None
   \<and> fst (Complete {} (queue_New ''q'') 2
          \<lparr>queue_items = [new_row 1 ''q'' [] ''2024-01-01 12:00:00'' ''2024-01-01 12:00:00''],
           seq = 1\<rparr>) = None
   \<and> fst (Fail {} (queue_New ''q'') 2
          \<lparr>queue_items = [new_row 1 ''q'' [] ''2024-01-01 12:00:00'' ''2024-01-01 12:00:00''],
           seq = 1\<rparr>) = None
   \<and> fst (RetryWithDelay (\<lambda>t. ''2024-01-01 12:00:06+00:00'') {} (queue_New ''q'') 5 2 Second
          \<lparr>queue_items = [new_row 1 ''q'' [] ''2024-01-01 12:00:00'' ''2024-01-01 12:00:00''],
           seq = 1\<rparr>) = None
   \<and> snd (update_where (by_id 1 ''q'') (set_status ''completed'')
          [new_row 1 ''q'' [] ''2024-01-01 12:00:00'' ''2024-01-01 12:00:00'']) = 1
   \<and> snd (update_where (by_id 2 ''q'') (set_status ''completed'')
          [new_row 1 ''q'' [] ''2024-01-01 12:00:00'' ''2024-01-01 12:00:00'']) = 0"
  by (simp add: Complete_def Fail_def RetryWithDelay_def by_id_def new_row_def)

text \<open>
  C5, amended. \<open>Complete\<close>, \<open>Fail\<close> and \<open>RetryWithDelay\<close> rewrite every row with the given
  \<open>id\<close> and \<open>queue_name\<close>, whatever its status, and touch no other row. The Go functions
  return only an error: \<open>nil\<close> whenever the statement ran, whether or not a row was
  matched. The functions of the TypeScript port run the same statements and return the
  boolean that tells whether a row was matched.
\<close>

theorem settle_by_id_unconditional:
  "Complete failing q i d =
     (if DbExec \<in> failing then (Some (StorageError DbExec), d)
      else (None, d\<lparr>queue_items :=
              map (\<lambda>r. if ID r = i \<and> QueueName r = queueName q
                         then r\<lparr>Status := ''completed''\<rparr> else r) (queue_items d)\<rparr>))
   \<and> Fail failing q i d =
     (if DbExec \<in> failing then (Some (StorageError DbExec), d)
      else (None, d\<lparr>queue_items :=
              map (\<lambda>r. if ID r = i \<and> QueueName r = queueName q
                         then r\<lparr>Status := ''failed''\<rparr> else r) (queue_items d)\<rparr>))
   \<and> RetryWithDelay bind failing q goNow i delay d =
     (if DbExec \<in> failing then (Some (StorageError DbExec), d)
      else (None, d\<lparr>queue_items :=
              map (\<lambda>r. if ID r = i \<and> QueueName r = queueName q
                         then r\<lparr>Status := ''pending'', ScheduledAt := bind (goNow + sint delay)\<rparr>
                         else r) (queue_items d)\<rparr>))
   \<and> (DbExec \<notin> failing \<longrightarrow>
        complete_ts failing q i d =
          (Inr (\<exists>r \<in> set (queue_items d). ID r = i \<and> QueueName r = queueName q),
           snd (Complete failing q i d))
        \<and> fail_ts failing q i d =
          (Inr (\<exists>r \<in> set (queue_items d). ID r = i \<and> QueueName r = queueName q),
           snd (Fail failing q i d))
        \<and> retryWithDelay_ts toISOString failing q dateNow i ms d =
          (Inr (\<exists>r \<in> set (queue_items d). ID r = i \<and> QueueName r = queueName q),
           d\<lparr>queue_items :=
              map (\<lambda>r. if ID r = i \<and> QueueName r = queueName q
                         then r\<lparr>Status := ''pending'', ScheduledAt := toISOString (dateNow + ms)\<rparr>
                         else r) (queue_items d)\<rparr>))"
proof -
  have pos: "0 < length (filter (by_id i (queueName q)) (queue_items d))
               \<longleftrightarrow> (\<exists>r \<in> set (queue_items d). ID r = i \<and> QueueName r = queueName q)"
    by (auto simp: by_id_def filter_empty_conv)
  have ts: "complete_ts failing q i d =
          (Inr (\<exists>r \<in> set (queue_items d). ID r = i \<and> QueueName r = queueName q),
           snd (Complete failing q i d))"
     "fail_ts failing q i d =
          (Inr (\<exists>r \<in> set (queue_items d). ID r = i \<and> QueueName r = queueName q),
           snd (Fail failing q i d))"
     "retryWithDelay_ts toISOString failing q dateNow i ms d =
          (Inr (\<exists>r \<in> set (queue_items d). ID r = i \<and> QueueName r = queueName q),
           d\<lparr>queue_items :=
              map (\<lambda>r. if ID r = i \<and> QueueName r = queueName q
                         then r\<lparr>Status := ''pending'', ScheduledAt := toISOString (dateNow + ms)\<rparr>
                         else r) (queue_items d)\<rparr>)"
    if "DbExec \<notin> failing"
    using that pos
    by (simp_all add: complete_ts_def fail_ts_def retryWithDelay_ts_def update_where_eq
          Complete_def Fail_def set_pending_def by_id_eq)
  show ?thesis
    using ts by (simp add: Complete_eq Fail_eq RetryWithDelay_eq by_id_eq)
qed

theorem settle_by_id_unconditional_witness:
  "Complete {} (queue_New ''q'') 1
     \<lparr>queue_items =
        [(new_row 1 ''q'' [] ''2024-01-01 12:00:00'' ''2024-01-01 12:00:00'')
           \<lparr>Status := ''failed''\<rparr>,
         new_row 2 ''q'' [] ''2024-01-01 12:00:00'' ''2024-01-01 12:00:00''],
      seq = 2\<rparr>
   = (None,
      \<lparr>queue_items =
         [(new_row 1 ''q'' [] ''2024-01-01 12:00:00'' ''2024-01-01 12:00:00'')
            \<lparr>Status := ''completed''\<rparr>,
          new_row 2 ''q'' [] ''2024-01-01 12:00:00'' ''2024-01-01 12:00:00''],
       seq = 2\<rparr>)
   \<and> fst (complete_ts {} (queue_New ''q'') 1
       \<lparr>queue_items =
          [(new_row 1 ''q'' [] ''2024-01-01 12:00:00'' ''2024-01-01 12:00:00'')
             \<lparr>Status := ''failed''\<rparr>,
           new_row 2 ''q'' [] ''2024-01-01 12:00:00'' ''2024-01-01 12:00:00''],
        seq = 2\<rparr>) = Inr True
   \<and> fst (complete_ts {} (queue_New ''q'') 3
       \<lparr>queue_items =
          [(new_row 1 ''q'' [] ''2024-01-01 12:00:00'' ''2024-01-01 12:00:00'')
             \<lparr>Status := ''failed''\<rparr>,
           new_row 2 ''q'' [] ''2024-01-01 12:00:00'' ''2024-01-01 12:00:00''],
        seq = 2\<rparr>) = Inr False"
  using settle_by_id_unconditional [of "{}" "queue_New ''q''" 1
    "\<lparr>queue_items =
        [(new_row 1 ''q'' [] ''2024-01-01 12:00:00'' ''2024-01-01 12:00:00'')
           \<lparr>Status := ''failed''\<rparr>,
         new_row 2 ''q'' [] ''2024-01-01 12:00:00'' ''2024-01-01 12:00:00''],
      seq = 2\<rparr>"]
   settle_by_id_unconditional [of "{}" "queue_New ''q''" 3
    "\<lparr>queue_items =
        [(new_row 1 ''q'' [] ''2024-01-01 12:00:00'' ''2024-01-01 12:00:00'')
           \<lparr>Status := ''failed''\<rparr>,
         new_row 2 ''q'' [] ''2024-01-01 12:00:00'' ''2024-01-01 12:00:00''],
      seq = 2\<rparr>"]
  by (simp add: queue_New_def new_row_def)

text \<open>
  C6. No sequence of queue operations removes or moves a row, so a row is followed by its
  position in the table. Through every sequence of calls each row keeps its id and its
  \<open>attempts\<close> never decreases. A successful \<open>Dequeue\<close> adds exactly one to \<open>attempts\<close>
  of the row it claims and leaves the other rows' counts alone; \<open>Complete\<close>, \<open>Fail\<close> and
  \<open>RetryWithDelay\<close> leave every count unchanged.
\<close>

theorem attempts_never_decrease:
  "(\<forall>k < length (queue_items d).
      k < length (queue_items (run_calls m bind cs d))
      \<and> ID (queue_items (run_calls m bind cs d) ! k) = ID (queue_items d ! k)
      \<and> Attempts (queue_items d ! k) \<le> Attempts (queue_items (run_calls m bind cs d) ! k))
   \<and> (\<forall>item d'. Dequeue failing q now d = (Inr (Some item), d') \<longrightarrow>
         map Attempts (queue_items d') =
           map (\<lambda>r. if ID r = ID item \<and> QueueName r = queueName q
                      then Attempts r + 1 else Attempts r) (queue_items d))
   \<and> map Attempts (queue_items (snd (Complete failing q i d))) = map Attempts (queue_items d)
   \<and> map Attempts (queue_items (snd (Fail failing q i d))) = map Attempts (queue_items d)
   \<and> map Attempts (queue_items (snd (RetryWithDelay bind failing q goNow i delay d)))
       = map Attempts (queue_items d)"
proof -
  have claim: "map Attempts (queue_items d') =
           map (\<lambda>r. if ID r = ID item \<and> QueueName r = queueName q
                      then Attempts r + 1 else Attempts r) (queue_items d)"
    if "Dequeue failing q now d = (Inr (Some item), d')" for item d'
  proof -
    from Dequeue_Some [OF that] obtain old where
      "item = set_processing now old"
      "d' = d\<lparr>queue_items :=
               map (\<lambda>r. if by_id (ID old) (queueName q) r then set_processing now r else r)
                 (queue_items d)\<rparr>"
      by blast
    then show ?thesis by (simp add: by_id_def set_processing_def)
  qed
  have settle:
    "map Attempts (queue_items (snd (Complete failing q i d))) = map Attempts (queue_items d)"
    "map Attempts (queue_items (snd (Fail failing q i d))) = map Attempts (queue_items d)"
    "map Attempts (queue_items (snd (RetryWithDelay bind failing q goNow i delay d)))
       = map Attempts (queue_items d)"
    by (simp_all add: Complete_eq Fail_eq RetryWithDelay_eq)
  from run_calls_nth [of _ d m bind cs] claim settle show ?thesis by blast
qed

theorem attempts_never_decrease_witness:
  "Attempts (queue_items
      (run_calls Some
         (\<lambda>t. if t = 1704110407000000000 then ''2024-01-01 12:00:07+00:00''
               else ''2024-01-01 12:00:00+00:00'')
         [CallDequeue {} (queue_New ''q'') ''2024-01-01 12:00:05+00:00'',
          CallRetryWithDelay {} (queue_New ''q'') 1704110406000000000 1 Second,
          CallEnqueue {} (queue_New ''q'') ''2024-01-01 12:00:07'' [1],
          CallDequeue {} (queue_New ''q'') ''2024-01-01 12:00:08+00:00'',
          CallFail {} (queue_New ''q'') 1]
         \<lparr>queue_items = [new_row 1 ''q'' [] ''2024-01-01 12:00:00'' ''2024-01-01 12:00:00''],
          seq = 1\<rparr>) ! 0) = 1
   \<and> Attempts (queue_items
         \<lparr>queue_items = [new_row 1 ''q'' [] ''2024-01-01 12:00:00'' ''2024-01-01 12:00:00''],
          seq = 1\<rparr> ! 0)
       \<le> Attempts (queue_items
      (run_calls Some
         (\<lambda>t. if t = 1704110407000000000 then ''2024-01-01 12:00:07+00:00''
               else ''2024-01-01 12:00:00+00:00'')
         [CallDequeue {} (queue_New ''q'') ''2024-01-01 12:00:05+00:00'',
          CallRetryWithDelay {} (queue_New ''q'') 1704110406000000000 1 Second,
          CallEnqueue {} (queue_New ''q'') ''2024-01-01 12:00:07'' [1],
          CallDequeue {} (queue_New ''q'') ''2024-01-01 12:00:08+00:00'',
          CallFail {} (queue_New ''q'') 1]
         \<lparr>queue_items = [new_row 1 ''q'' [] ''2024-01-01 12:00:00'' ''2024-01-01 12:00:00''],
          seq = 1\<rparr>) ! 0)
   \<and> map Attempts (queue_items (snd (Dequeue {} (queue_New ''q'') ''2024-01-01 12:00:05+00:00''
         \<lparr>queue_items = [new_row 1 ''q'' [] ''2024-01-01 12:00:00'' ''2024-01-01 12:00:00''],
          seq = 1\<rparr>))) = [1]"
proof -
  let ?r = "new_row 1 ''q'' [] ''2024-01-01 12:00:00'' ''2024-01-01 12:00:00''"
  let ?d = "\<lparr>queue_items = [?r], seq = 1\<rparr>"
  let ?now = "''2024-01-01 12:00:05+00:00''"
  let ?item = "?r\<lparr>Status := ''processing'', Attempts := 1, LastAttemptAt := Some ?now\<rparr>"
  let ?bind = "\<lambda>t::int. if t = 1704110407000000000 then ''2024-01-01 12:00:07+00:00''
               else ''2024-01-01 12:00:00+00:00''"
  let ?cs = "[CallDequeue {} (queue_New ''q'') ?now,
          CallRetryWithDelay {} (queue_New ''q'') 1704110406000000000 1 Second,
          CallEnqueue {} (queue_New ''q'') ''2024-01-01 12:00:07'' [1],
          CallDequeue {} (queue_New ''q'') ''2024-01-01 12:00:08+00:00'',
          CallFail {} (queue_New ''q'') 1]"
  have run: "Dequeue {} (queue_New ''q'') ?now ?d
               = (Inr (Some ?item), \<lparr>queue_items = [?item], seq = 1\<rparr>)"
    by (simp add: Dequeue_def select_next_def claimable_def new_row_def queue_New_def
          mark_processing_def by_id_def set_processing_def)
  have val: "Attempts (queue_items (run_calls Some ?bind ?cs ?d) ! 0) = 1"
    by (simp add: Dequeue_def select_next_def claimable_def new_row_def queue_New_def
          mark_processing_def by_id_def set_processing_def RetryWithDelay_def set_pending_def
          Add_def Second_def Enqueue_def insert_item_def next_id_def Fail_def set_status_def)
  from attempts_never_decrease [of ?d Some ?bind ?cs "{}" "queue_New ''q''" ?now] run val
  show ?thesis by (simp add: new_row_def queue_New_def)
qed

section \<open>Enqueue followed by Dequeue\<close>




section \<open>The worker loop\<close>

text \<open>
  C7. The claim: the delay the worker applies when it reschedules a failed item is
  \<open>base_delay * 2 ^ (attempts - 1)\<close>, from the attempts after the claim. On the code this
  holds with \<open>base_delay = 2 s\<close> for 1 to 33 attempts (\<open>retry_delay_in_range\<close>) and fails
  at 34: the delay is computed in \<open>int64\<close> nanoseconds without a cap, \<open>2 ^ 34\<close> seconds do
  not fit, the product wraps to a negative duration and the item is rescheduled into the
  past. The failing run: a worker with \<open>MaxRetries = 40\<close>, an item claimed 33 times before,
  a handler that returns an error.
\<close>

theorem retry_delay_overflow:
  "sint (retry_delay 34) = - 1266874889709551616
   \<and> processNext bind
        (worker_New \<lparr>cfg_QueueName = ''q'', cfg_Interval = 0, cfg_MaxRetries = 40\<rparr>
           (\<lambda>payload. Some ''handler failed''))
        \<lparr>claim_now = ''2024-01-01 12:00:00+00:00'', claim_failing = {},
         settle_now = 1704110401000000000, settle_failing = {}\<rparr>
        \<lparr>queue_items =
           [(new_row 1 ''q'' [] ''2024-01-01 11:00:00'' ''2024-01-01 11:00:00'')
              \<lparr>Attempts := 33\<rparr>],
         seq = 1\<rparr>
     = \<lparr>queue_items =
          [(new_row 1 ''q'' [] ''2024-01-01 11:00:00'' ''2024-01-01 11:00:00'')
             \<lparr>ScheduledAt := bind (1704110401000000000 - 1266874889709551616),
              Status := ''pending'', Attempts := 34,
              LastAttemptAt := Some ''2024-01-01 12:00:00+00:00''\<rparr>],
        seq = 1\<rparr>"
proof -
  have d: "sint (retry_delay 34) = - 1266874889709551616"
    by (simp add: retry_delay_def shl_int64_def go_uint_def Second_def)
  show ?thesis
    by (simp add: d processNext_def worker_New_def queue_New_def Dequeue_def select_next_def
          claimable_def new_row_def mark_processing_def by_id_def set_processing_def
          RetryWithDelay_def set_pending_def Add_def Let_def)
qed

text \<open>
  C8. The claim: when the handler fails, the worker does exactly one of \<open>Fail\<close>, if the
  attempts after the claim have reached \<open>max_attempts\<close>, or \<open>RetryWithDelay\<close> with the
  delay \<open>backoff(attempts)\<close> otherwise, and the loop goes on. On the code the choice
  between the two, the containment to the item and the loop are as claimed
  (\<open>processNext_handler_failure\<close>), and so is the delay for 1 to 33 attempts; at 34
  attempts, below \<open>MaxRetries = 40\<close>, the retry is made with the delay that has wrapped:
  it is not \<open>2 s * 2 ^ 33\<close>, and the instant the item is rescheduled to lies before the
  instant of the failure.
\<close>

theorem processNext_retry_delay_wraps:
  "processNext bind
        (worker_New \<lparr>cfg_QueueName = ''q'', cfg_Interval = 0, cfg_MaxRetries = 40\<rparr>
           (\<lambda>payload. Some ''handler failed''))
        \<lparr>claim_now = ''2024-01-01 12:00:00+00:00'', claim_failing = {},
         settle_now = 1704110401000000000, settle_failing = {}\<rparr>
        \<lparr>queue_items =
           [(new_row 1 ''q'' [] ''2024-01-01 11:00:00'' ''2024-01-01 11:00:00'')
              \<lparr>Attempts := 33\<rparr>],
         seq = 1\<rparr>
     = snd (RetryWithDelay bind {} (queue_New ''q'') 1704110401000000000 1 (retry_delay 34)
              (snd (Dequeue {} (queue_New ''q'') ''2024-01-01 12:00:00+00:00''
                 \<lparr>queue_items =
                    [(new_row 1 ''q'' [] ''2024-01-01 11:00:00'' ''2024-01-01 11:00:00'')
                       \<lparr>Attempts := 33\<rparr>],
                  seq = 1\<rparr>)))
   \<and> sint (retry_delay 34) \<noteq> 2000000000 * 2 ^ 33
   \<and> Add 1704110401000000000 (retry_delay 34) < 1704110401000000000"
proof -
  have d: "sint (retry_delay 34) = - 1266874889709551616"
    by (simp add: retry_delay_def shl_int64_def go_uint_def Second_def)
  show ?thesis
    by (simp add: d processNext_def worker_New_def queue_New_def Dequeue_def select_next_def
          claimable_def new_row_def mark_processing_def by_id_def set_processing_def
          RetryWithDelay_def set_pending_def Add_def Let_def)
qed

section \<open>Worker configuration\<close>

text \<open>
  C10. \<open>worker.New\<close> replaces a zero \<open>Interval\<close> by 5 seconds and a zero \<open>MaxRetries\<close>
  by 3 and keeps every other value, so the worker it builds never has a retry ceiling
  of zero.
\<close>

theorem worker_New_defaults:
  "(cfg_Interval c = 0 \<longrightarrow> w_interval (worker_New c f) = 5 * Second)
   \<and> (cfg_Interval c \<noteq> 0 \<longrightarrow> w_interval (worker_New c f) = cfg_Interval c)
   \<and> (cfg_MaxRetries c = 0 \<longrightarrow> w_maxRetries (worker_New c f) = 3)
   \<and> (cfg_MaxRetries c \<noteq> 0 \<longrightarrow> w_maxRetries (worker_New c f) = cfg_MaxRetries c)
   \<and> w_maxRetries (worker_New c f) \<noteq> 0
   \<and> sint (5 * Second) = 5000000000"
  by (simp add: worker_New_def Let_def Second_def)

theorem worker_New_defaults_witness:
  "w_interval (worker_New \<lparr>cfg_QueueName = ''emails'', cfg_Interval = 0, cfg_MaxRetries = 0\<rparr>
                 (\<lambda>payload. None))
     = 5 * Second
   \<and> w_maxRetries (worker_New \<lparr>cfg_QueueName = ''emails'', cfg_Interval = 0, cfg_MaxRetries = 0\<rparr>
                      (\<lambda>payload. None))
     = 3
   \<and> w_interval (worker_New \<lparr>cfg_QueueName = ''emails'', cfg_Interval = 7, cfg_MaxRetries = -1\<rparr>
                    (\<lambda>payload. None))
     = 7
   \<and> w_maxRetries (worker_New \<lparr>cfg_QueueName = ''emails'', cfg_Interval = 7, cfg_MaxRetries = -1\<rparr>
                      (\<lambda>payload. None))
     = -1"
  using
    worker_New_defaults
      [of "\<lparr>cfg_QueueName = ''emails'', cfg_Interval = 0, cfg_MaxRetries = 0\<rparr>" "\<lambda>payload. None"]
    worker_New_defaults
      [of "\<lparr>cfg_QueueName = ''emails'', cfg_Interval = 7, cfg_MaxRetries = -1\<rparr>" "\<lambda>payload. None"]
  by simp

end
